theory Spec2Isabelle
  imports Complex_Main "HOL-Library.Sublist"
begin

section \<open>Data model of calcium\_converter.py\<close>

text \<open>
  Python numbers (the ints and floats read from the sheet and every value computed from
  them) are modelled as \<^typ>\<open>real\<close>: arithmetic is exact, rounding is not modelled.
  Every exception the source can raise is a value of \<open>py_error\<close>, and a function that
  can raise returns \<open>py_error + 'a\<close> with \<open>Inl\<close> for the exception.
\<close>

datatype py_error =
    TypeError
  | ZeroDivisionError
  | IndexError
  | AttributeError
  | AssertionError
  | StatisticsError
  | ValueError

text \<open>The value of a sheet cell: empty (\<open>None\<close>), an int, a float, a text or a bool.\<close>

datatype cell = CNone | CInt int | CFloat real | CStr string | CBool bool

text \<open>\<open>class TimeValuePair\<close>: one sample.\<close>

record TimeValuePair =
  time :: real
  val :: real

text \<open>
  \<open>class TreatmentData\<close>. \<open>prior_wash_data\<close> is assigned \<open>prior_std_data\<close> in
  \<open>get_raw_data\<close>, which is \<open>None\<close> when no bath segment precedes, hence the option.
\<close>

record TreatmentData =
  treatment_name :: string
  prior_wash_data :: "TimeValuePair list option"
  treatment_data :: "TimeValuePair list"
  anterior_wash_data :: "TimeValuePair list"

section \<open>Concentration converter\<close>

text \<open>
  The number a cell denotes in float arithmetic; \<open>None\<close> and text have none
  (a bool counts as 0 or 1 in Python arithmetic).
\<close>

fun cell_number :: "cell \<Rightarrow> real option" where
  "cell_number (CInt i) = Some (real_of_int i)"
| "cell_number (CFloat x) = Some x"
| "cell_number (CBool b) = Some (if b then 1 else 0)"
| "cell_number CNone = None"
| "cell_number (CStr s) = None"

text \<open>
  \<open>ratio_to_calcium_concentration\<close>: \<open>None\<close> is returned as \<open>None\<close>; on a text
  \<open>ratio - 0.132\<close> raises TypeError; the float division raises ZeroDivisionError when
  \<open>6.274 - ratio\<close> is zero.
\<close>

definition ratio_to_calcium_concentration :: "cell \<Rightarrow> py_error + real option" where
  "ratio_to_calcium_concentration ratio =
     (if ratio = CNone then Inr None
      else case cell_number ratio of
             None \<Rightarrow> Inl TypeError
           | Some r \<Rightarrow>
               if 6.274 - r = 0 then Inl ZeroDivisionError
               else Inr (Some (146 * (25813.79 / 1674.68) * ((r - 0.132) / (6.274 - r)))))"

section \<open>Python library functions used by the metrics\<close>

text \<open>The slice \<open>xs[s:]\<close>: a negative start counts from the end, and both are clamped.\<close>

definition py_slice_from :: "int \<Rightarrow> 'a list \<Rightarrow> 'a list" where
  "py_slice_from s xs =
     (let n = int (length xs);
          start = (if s < 0 then max (n + s) 0 else min s n)
      in drop (nat start) xs)"

text \<open>\<open>statistics.mean\<close> raises StatisticsError on no data.\<close>

definition py_mean :: "real list \<Rightarrow> py_error + real" where
  "py_mean xs =
     (if xs = [] then Inl StatisticsError else Inr (sum_list xs / real (length xs)))"

text \<open>
  \<open>statistics.stdev\<close>, the sample standard deviation: the square root of the sum of
  squared deviations from the mean over \<open>n - 1\<close>; StatisticsError on fewer than two
  data points.
\<close>

definition py_stdev :: "real list \<Rightarrow> py_error + real" where
  "py_stdev xs =
     (if length xs < 2 then Inl StatisticsError
      else let m = sum_list xs / real (length xs)
           in Inr (sqrt (sum_list (map (\<lambda>x. (x - m)\<^sup>2) xs) / real (length xs - 1))))"

text \<open>
  \<open>sorted(data, reverse=True, key=lambda x: x.value)\<close>: descending by value, and
  stable (samples of equal value keep their order), like Python's sort.
\<close>

definition sorted_by_value_desc :: "TimeValuePair list \<Rightarrow> TimeValuePair list" where
  "sorted_by_value_desc xs = sort_key (\<lambda>x. - val x) xs"

section \<open>Metrics engine\<close>

text \<open>
  The loop of \<open>calculate_peak\<close> that counts into \<open>i\<close>: \<open>i\<close> is incremented before the
  time of the sample is compared with the limit, and the loop breaks after the comparison.
\<close>

fun peak_scan :: "real \<Rightarrow> nat \<Rightarrow> TimeValuePair list \<Rightarrow> nat" where
  "peak_scan limit i [] = i"
| "peak_scan limit i (v # vs) =
     (if time v > limit then i + 1 else peak_scan limit (i + 1) vs)"

text \<open>The list \<open>data_to_search\<close> of \<open>calculate_peak\<close>, before it is sorted.\<close>

definition data_to_search :: "TreatmentData \<Rightarrow> real \<Rightarrow> py_error + TimeValuePair list" where
  "data_to_search td post_std_time_to_search =
     (if treatment_data td = [] then Inl IndexError
      else let end_treatment_value_time = time (last (treatment_data td));
               i = peak_scan (end_treatment_value_time + post_std_time_to_search) 0
                     (anterior_wash_data td)
           in Inr (treatment_data td
                   @ take (min (length (anterior_wash_data td)) i) (anterior_wash_data td)))"

text \<open>
  The second component of the result of \<open>calculate_peak\<close>: a time, or, in the branch
  \<open>max(data_to_search[0:2])\<close>, a \<open>TimeValuePair\<close> object.
\<close>

datatype peak_time = PeakTime real | PeakObject TimeValuePair

text \<open>
  \<open>max\<close> over a list of \<open>TimeValuePair\<close> objects: the class defines no ordering, so
  comparing two of them raises TypeError; a single object is returned as it is; no
  object at all is a ValueError.
\<close>

fun max_objects :: "TimeValuePair list \<Rightarrow> py_error + TimeValuePair" where
  "max_objects [] = Inl ValueError"
| "max_objects [x] = Inr x"
| "max_objects (x # y # ys) = Inl TypeError"

definition calculate_peak ::
  "TreatmentData \<Rightarrow> int \<Rightarrow> real \<Rightarrow> py_error + (real \<times> peak_time)" where
  "calculate_peak td peak_type post_std_time_to_search =
     (case data_to_search td post_std_time_to_search of
        Inl e \<Rightarrow> Inl e
      | Inr pool \<Rightarrow>
          (case sorted_by_value_desc pool of
             [] \<Rightarrow> Inl IndexError
           | best # rest \<Rightarrow>
               if peak_type = 1 then Inr (val best, PeakTime (time best))
               else (case py_mean (map val (take 2 (best # rest))) of
                       Inl e \<Rightarrow> Inl e
                     | Inr m \<Rightarrow>
                         (case max_objects (take 2 (best # rest)) of
                            Inl e \<Rightarrow> Inl e
                          | Inr obj \<Rightarrow> Inr (m, PeakObject obj)))))"

definition calculate_base :: "TreatmentData \<Rightarrow> int \<Rightarrow> py_error + (real \<times> real)" where
  "calculate_base td base =
     (case prior_wash_data td of
        None \<Rightarrow> Inl TypeError
      | Some pw \<Rightarrow>
          let base_time_value_pairs = py_slice_from (- base) pw;
              base_values = map val base_time_value_pairs
          in (case py_mean base_values of
                Inl e \<Rightarrow> Inl e
              | Inr m \<Rightarrow>
                  (case py_stdev base_values of
                     Inl e \<Rightarrow> Inl e
                   | Inr s \<Rightarrow> Inr (m, s))))"

text \<open>
  The loop of \<open>calculate_area\<close>, with its three variables \<open>previous_time\<close>,
  \<open>consec_values_at_base\<close> and \<open>auc\<close>; \<open>break\<close> returns the accumulator.
\<close>

fun area_loop ::
  "real \<Rightarrow> real \<Rightarrow> real \<Rightarrow> real option \<Rightarrow> nat \<Rightarrow> real \<Rightarrow> TimeValuePair list \<Rightarrow> real" where
  "area_loop base base_std base_peak_time previous_time consec auc [] = auc"
| "area_loop base base_std base_peak_time previous_time consec auc (v # vs) =
     (let dt = (case previous_time of None \<Rightarrow> 6 | Some p \<Rightarrow> time v - p)
      in if val v > base + base_std then
           area_loop base base_std base_peak_time (Some (time v)) consec
             (auc + (val v - base) * dt) vs
         else if time v > base_peak_time then
           (if consec + 1 \<ge> 15 then auc
            else area_loop base base_std base_peak_time (Some (time v)) (consec + 1) auc vs)
         else area_loop base base_std base_peak_time (Some (time v)) consec auc vs)"

definition calculate_area :: "TreatmentData \<Rightarrow> real \<Rightarrow> real \<Rightarrow> real \<Rightarrow> real" where
  "calculate_area td base base_std base_peak_time =
     area_loop base base_std base_peak_time None 0 0
       (treatment_data td @ anterior_wash_data td)"

definition calculate_delta :: "real \<Rightarrow> real \<Rightarrow> real" where
  "calculate_delta peak base = peak - base"

section \<open>Region segmenter\<close>

text \<open>
  The worksheet: \<open>insheet.cell(row, column).value\<close> and \<open>insheet.max_row\<close>. A cell
  outside the filled part of the sheet is empty; a row or column below 1 is a ValueError.
\<close>

record Worksheet =
  cells :: "int \<Rightarrow> int \<Rightarrow> cell"
  max_row :: int

definition sheet_cell :: "Worksheet \<Rightarrow> int \<Rightarrow> int \<Rightarrow> py_error + cell" where
  "sheet_cell insheet row column =
     (if row < 1 \<or> column < 1 then Inl ValueError else Inr (cells insheet row column))"

text \<open>
  An entry of the list \<open>treatment_labels\<close>: a \<open>LabelIndexPair\<close> object, or the plain
  tuple that \<open>treatment_labels.insert(0, ('STD', start_of_data_row))\<close> puts in front.
\<close>

datatype label_entry = LabelIndexPair string int | PlainTuple string int

text \<open>
  The attribute \<open>.label\<close>: a tuple has none (AttributeError). The attribute \<open>.index\<close>:
  the row of a \<open>LabelIndexPair\<close>, but on a tuple the bound method \<open>tuple.index\<close>, on
  which comparison and arithmetic with an int raise TypeError.
\<close>

datatype index_attr = IndexInt int | IndexMethod

fun entry_label :: "label_entry \<Rightarrow> py_error + string" where
  "entry_label (LabelIndexPair l i) = Inr l"
| "entry_label (PlainTuple l i) = Inl AttributeError"

fun entry_index :: "label_entry \<Rightarrow> index_attr" where
  "entry_index (LabelIndexPair l i) = IndexInt i"
| "entry_index (PlainTuple l i) = IndexMethod"

fun index_int :: "index_attr \<Rightarrow> py_error + int" where
  "index_int (IndexInt i) = Inr i"
| "index_int IndexMethod = Inl TypeError"

definition is_valid_treatment :: "string \<Rightarrow> bool" where
  "is_valid_treatment potential_treatment =
     (''Standard Bath'' \<noteq> potential_treatment \<and> ''STD'' \<noteq> potential_treatment)"

text \<open>A segment of a region: \<open>TreatmentData\<close> or \<open>StandardBathData\<close>.\<close>

datatype segment = Treatment TreatmentData | StandardBath "TimeValuePair list"

text \<open>The line printed for a row that is not accepted: time value, ratio value, row.\<close>

datatype diagnostic = InvalidValues cell "real option" int

text \<open>\<open>type(v) is int or type(v) is float\<close> on a cell value (a bool is neither).\<close>

fun is_int_or_float :: "cell \<Rightarrow> bool" where
  "is_int_or_float (CInt i) = True"
| "is_int_or_float (CFloat x) = True"
| "is_int_or_float c = False"

text \<open>A loop whose body can raise: the first exception ends it.\<close>

fun for_each :: "('a \<Rightarrow> 's \<Rightarrow> py_error + 's) \<Rightarrow> 'a list \<Rightarrow> 's \<Rightarrow> py_error + 's" where
  "for_each body [] st = Inr st"
| "for_each body (x # xs) st =
     (case body x st of Inl e \<Rightarrow> Inl e | Inr st' \<Rightarrow> for_each body xs st')"

text \<open>
  One iteration of the loop of \<open>append_values\<close>, on the list filled so far and the
  lines printed so far. The ratio cell is converted before any type is looked at.
\<close>

definition append_row ::
  "Worksheet \<Rightarrow> int \<Rightarrow> int \<Rightarrow> int \<Rightarrow> TimeValuePair list \<times> diagnostic list
     \<Rightarrow> py_error + TimeValuePair list \<times> diagnostic list" where
  "append_row insheet region time_column_idx row st =
     (case sheet_cell insheet row region of
        Inl e \<Rightarrow> Inl e
      | Inr ratio_cell \<Rightarrow>
     (case ratio_to_calcium_concentration ratio_cell of
        Inl e \<Rightarrow> Inl e
      | Inr ratio_value \<Rightarrow>
     (case sheet_cell insheet row time_column_idx of
        Inl e \<Rightarrow> Inl e
      | Inr time_value \<Rightarrow>
     (case (ratio_value, cell_number time_value) of
        (Some r, Some t) \<Rightarrow>
          if is_int_or_float time_value
          then Inr (fst st @ [\<lparr>time = t, val = r\<rparr>], snd st)
          else Inr (fst st @ [\<lparr>time = 0, val = 0\<rparr>],
                    snd st @ [InvalidValues time_value ratio_value row])
      | _ \<Rightarrow> Inr (fst st @ [\<lparr>time = 0, val = 0\<rparr>],
                  snd st @ [InvalidValues time_value ratio_value row])))))"

text \<open>\<open>append_values(list, start, end)\<close>: the rows \<open>k + start\<close> for \<open>k\<close> in \<open>range(end - start)\<close>.\<close>

definition append_values ::
  "Worksheet \<Rightarrow> int \<Rightarrow> int \<Rightarrow> TimeValuePair list \<times> diagnostic list \<Rightarrow> int \<Rightarrow> int
     \<Rightarrow> py_error + TimeValuePair list \<times> diagnostic list" where
  "append_values insheet region time_column_idx st start_idx end_idx =
     for_each (\<lambda>k. append_row insheet region time_column_idx (int k + start_idx))
       [0..<nat (end_idx - start_idx)] st"

text \<open>The same call when a bound is an \<open>.index\<close> attribute: a method there is a TypeError.\<close>

definition append_values_attr ::
  "Worksheet \<Rightarrow> int \<Rightarrow> int \<Rightarrow> TimeValuePair list \<times> diagnostic list
     \<Rightarrow> py_error + int \<Rightarrow> index_attr \<Rightarrow> py_error + TimeValuePair list \<times> diagnostic list" where
  "append_values_attr insheet region time_column_idx st start_idx end_idx =
     (case start_idx of
        Inl e \<Rightarrow> Inl e
      | Inr s \<Rightarrow>
          (case index_int end_idx of
             Inl e \<Rightarrow> Inl e
           | Inr e \<Rightarrow> append_values insheet region time_column_idx st s e))"

text \<open>
  The loop over the segments appended so far that leaves in \<open>prior_std_data\<close> the
  samples of the last \<open>StandardBathData\<close>.
\<close>

fun prior_std :: "TimeValuePair list option \<Rightarrow> segment list \<Rightarrow> TimeValuePair list option" where
  "prior_std acc [] = acc"
| "prior_std acc (StandardBath d # segs) = prior_std (Some d) segs"
| "prior_std acc (Treatment t # segs) = prior_std acc segs"

text \<open>The entry \<open>treatment_labels[k].index\<close> if \<open>k\<close> is in range, else \<open>max_row + 1\<close>.\<close>

definition index_or_end :: "Worksheet \<Rightarrow> label_entry list \<Rightarrow> nat \<Rightarrow> index_attr" where
  "index_or_end insheet treatment_labels k =
     (if k < length treatment_labels then entry_index (treatment_labels ! k)
      else IndexInt (max_row insheet + 1))"

text \<open>
  The body of the loop over \<open>enumerate(treatment_labels)\<close> in \<open>get_raw_data\<close>, for the
  label at position \<open>j\<close>; the state is the region's segment list and the lines printed.
\<close>

definition build_segment ::
  "Worksheet \<Rightarrow> int \<Rightarrow> int \<Rightarrow> label_entry list \<Rightarrow> nat \<Rightarrow> segment list \<times> diagnostic list
     \<Rightarrow> py_error + segment list \<times> diagnostic list" where
  "build_segment insheet region time_column_idx treatment_labels j st =
     (let label_index_pair = treatment_labels ! j;
          treatment_end_idx = index_or_end insheet treatment_labels (j + 1)
      in case entry_label label_index_pair of
           Inl e \<Rightarrow> Inl e
         | Inr lbl \<Rightarrow>
             if is_valid_treatment lbl then
               (case append_values_attr insheet region time_column_idx ([], snd st)
                       (index_int (entry_index label_index_pair)) treatment_end_idx of
                  Inl e \<Rightarrow> Inl e
                | Inr (tdata, out1) \<Rightarrow>
                    if \<not> j > 0 then Inl AssertionError
                    else
                      (case (if j + 1 < length treatment_labels
                             then entry_label (treatment_labels ! (j + 1))
                             else Inl IndexError) of
                         Inl e \<Rightarrow> Inl e
                       | Inr next_lbl \<Rightarrow>
                           if \<not> is_valid_treatment next_lbl then
                             (case append_values_attr insheet region time_column_idx ([], out1)
                                     (case index_int treatment_end_idx of
                                        Inl e \<Rightarrow> Inl e | Inr i \<Rightarrow> Inr (i + 1))
                                     (index_or_end insheet treatment_labels (j + 2)) of
                                Inl e \<Rightarrow> Inl e
                              | Inr (adata, out2) \<Rightarrow>
                                  Inr (fst st @ [Treatment
                                         \<lparr>treatment_name = lbl,
                                          prior_wash_data = prior_std None (fst st),
                                          treatment_data = tdata,
                                          anterior_wash_data = adata\<rparr>], out2))
                           else
                             Inr (fst st @ [Treatment
                                    \<lparr>treatment_name = lbl,
                                     prior_wash_data = prior_std None (fst st),
                                     treatment_data = tdata,
                                     anterior_wash_data = []\<rparr>], out1)))
             else
               (case append_values_attr insheet region time_column_idx ([], snd st)
                       (index_int (entry_index label_index_pair)) treatment_end_idx of
                  Inl e \<Rightarrow> Inl e
                | Inr (bdata, out1) \<Rightarrow> Inr (fst st @ [StandardBath bdata], out1)))"

text \<open>
  \<open>if treatment_labels[0].index > start_of_data_row: treatment_labels.insert(0, ('STD',
  start_of_data_row))\<close>: an empty list is an IndexError, and what is inserted is a tuple.
\<close>

definition insert_std_label :: "int \<Rightarrow> label_entry list \<Rightarrow> py_error + label_entry list" where
  "insert_std_label start_of_data_row treatment_labels =
     (case treatment_labels of
        [] \<Rightarrow> Inl IndexError
      | first # rest \<Rightarrow>
          (case index_int (entry_index first) of
             Inl e \<Rightarrow> Inl e
           | Inr i \<Rightarrow>
               Inr (if i > start_of_data_row
                    then PlainTuple ''STD'' start_of_data_row # treatment_labels
                    else treatment_labels)))"

text \<open>
  The body of the loop over the regions in \<open>get_raw_data\<close>, for one region column:
  given the bounds found by \<open>search_for_data_bounds\<close> and the list found by
  \<open>search_for_treatment_labels\<close>, it returns the region's segment list, the lines
  printed, and the label list (which the insertion changes for the regions after it).
\<close>

definition region_segments ::
  "Worksheet \<Rightarrow> int \<Rightarrow> int \<Rightarrow> int \<Rightarrow> label_entry list
     \<Rightarrow> py_error + (segment list \<times> diagnostic list) \<times> label_entry list" where
  "region_segments insheet start_of_data_row time_column_idx region treatment_labels =
     (case insert_std_label start_of_data_row treatment_labels of
        Inl e \<Rightarrow> Inl e
      | Inr labels \<Rightarrow>
          (case for_each (build_segment insheet region time_column_idx labels)
                  [0..<length labels] ([], []) of
             Inl e \<Rightarrow> Inl e
           | Inr st \<Rightarrow> Inr (st, labels)))"

section \<open>The area computation, as the specification words it\<close>

text \<open>
  A sample is below the threshold and past the peak when its value does not exceed
  \<open>base + base_std\<close> and its time is past the peak time: these are the samples the
  counter of \<open>calculate_area\<close> counts.
\<close>

definition below_threshold :: "real \<Rightarrow> real \<Rightarrow> real \<Rightarrow> TimeValuePair \<Rightarrow> bool" where
  "below_threshold base base_std base_peak_time v =
     (\<not> val v > base + base_std \<and> time v > base_peak_time)"

text \<open>
  The counter after the first \<open>n\<close> samples: how many of them were below the threshold
  and past the peak, whatever lies between them.
\<close>

definition below_count :: "real \<Rightarrow> real \<Rightarrow> real \<Rightarrow> nat \<Rightarrow> TimeValuePair list \<Rightarrow> nat" where
  "below_count base base_std base_peak_time n vs =
     length (filter (below_threshold base base_std base_peak_time) (take n vs))"

text \<open>
  The time step of sample \<open>i\<close>: for the first sample 6 (or, inside the loop, the
  distance from the previous time), afterwards the distance from the sample before.
\<close>

definition dt_from :: "real option \<Rightarrow> TimeValuePair list \<Rightarrow> nat \<Rightarrow> real" where
  "dt_from previous_time vs i =
     (if i = 0 then (case previous_time of None \<Rightarrow> 6 | Some p \<Rightarrow> time (vs ! 0) - p)
      else time (vs ! i) - time (vs ! (i - 1)))"

text \<open>
  What sample \<open>i\<close> adds to the area: \<open>(value - base) * dt\<close> when its value exceeds
  \<open>base + base_std\<close> and the counter (started at \<open>c\<close>) has not reached 15 before it,
  and nothing otherwise.
\<close>

definition area_term ::
  "real \<Rightarrow> real \<Rightarrow> real \<Rightarrow> real option \<Rightarrow> nat \<Rightarrow> TimeValuePair list \<Rightarrow> nat \<Rightarrow> real" where
  "area_term base base_std base_peak_time previous_time c vs i =
     (if val (vs ! i) > base + base_std
         \<and> c + below_count base base_std base_peak_time i vs < 15
      then (val (vs ! i) - base) * dt_from previous_time vs i else 0)"

text \<open>The area of the specification: the sum of the terms of all samples, from a fresh start.\<close>

definition area_spec :: "real \<Rightarrow> real \<Rightarrow> real \<Rightarrow> TimeValuePair list \<Rightarrow> real" where
  "area_spec base base_std base_peak_time vs =
     sum_list (map (area_term base base_std base_peak_time None 0 vs) [0..<length vs])"

text \<open>
  Sample \<open>i\<close> is considered by the area computation when the loop reaches it: the
  counter has not reached 15 on the samples before it.
\<close>

definition considered :: "real \<Rightarrow> real \<Rightarrow> real \<Rightarrow> TimeValuePair list \<Rightarrow> nat \<Rightarrow> bool" where
  "considered base base_std base_peak_time vs i =
     (i < length vs \<and> below_count base base_std base_peak_time i vs < 15)"

text \<open>Every considered sample has a value of at least the base.\<close>

definition considered_values_at_least_base ::
  "real \<Rightarrow> real \<Rightarrow> real \<Rightarrow> TimeValuePair list \<Rightarrow> bool" where
  "considered_values_at_least_base base base_std base_peak_time vs =
     list_all (\<lambda>i. considered base base_std base_peak_time vs i \<longrightarrow> base \<le> val (vs ! i))
       [0..<length vs]"

text \<open>No considered sample is earlier than the sample before it.\<close>

definition considered_times_nondecreasing ::
  "real \<Rightarrow> real \<Rightarrow> real \<Rightarrow> TimeValuePair list \<Rightarrow> bool" where
  "considered_times_nondecreasing base base_std base_peak_time vs =
     list_all (\<lambda>i. considered base base_std base_peak_time vs (Suc i)
                    \<longrightarrow> time (vs ! i) \<le> time (vs ! Suc i))
       [0..<length vs]"

section \<open>The base and the segment list, as the specification words them\<close>

text \<open>The mean and the sample standard deviation of a list of at least two values.\<close>

definition mean_of :: "real list \<Rightarrow> real" where
  "mean_of xs = sum_list xs / real (length xs)"

definition sample_stdev_of :: "real list \<Rightarrow> real" where
  "sample_stdev_of xs =
     sqrt (sum_list (map (\<lambda>x. (x - mean_of xs)\<^sup>2) xs) / real (length xs - 1))"

fun is_standard_bath :: "segment \<Rightarrow> bool" where
  "is_standard_bath (StandardBath d) = True"
| "is_standard_bath (Treatment t) = False"

text \<open>
  A segment is in order after the segments \<open>earlier\<close> when it is a bath, or a treatment
  with a bath among \<open>earlier\<close> whose \<open>prior_wash_data\<close> is the samples of the last one.
\<close>

definition treatment_has_prior_bath :: "segment list \<Rightarrow> segment \<Rightarrow> bool" where
  "treatment_has_prior_bath earlier seg =
     (case seg of
        StandardBath d \<Rightarrow> True
      | Treatment t \<Rightarrow>
          list_ex is_standard_bath earlier
          \<and> prior_wash_data t \<noteq> None
          \<and> prior_wash_data t = prior_std None earlier)"

definition treatments_have_prior_bath :: "segment list \<Rightarrow> bool" where
  "treatments_have_prior_bath segs =
     list_all (\<lambda>k. treatment_has_prior_bath (take k segs) (segs ! k)) [0..<length segs]"

text \<open>
  The invariant of the walk over the labels before it handles label \<open>j\<close>: one segment
  per label handled, the first of them a bath, every treatment after a bath.
\<close>

definition walk_inv :: "nat \<Rightarrow> segment list \<Rightarrow> bool" where
  "walk_inv j segs =
     (length segs = j \<and> (segs \<noteq> [] \<longrightarrow> is_standard_bath (hd segs))
      \<and> treatments_have_prior_bath segs)"

section \<open>Example sheets\<close>

text \<open>
  Eight rows; column 1 holds the times 0, 6, 12, ... from row 2 on, column 2 the ratio
  0.132 (concentration 0) in every row.
\<close>

definition example_sheet :: Worksheet where
  "example_sheet =
     \<lparr>cells = (\<lambda>r c. if c = 1 then CInt (6 * (r - 2))
                     else if c = 2 then CFloat 0.132 else CNone),
      max_row = 8\<rparr>"

text \<open>The same sheet with a text in the ratio cell of row 3.\<close>

definition text_ratio_sheet :: Worksheet where
  "text_ratio_sheet =
     \<lparr>cells = (\<lambda>r c. if c = 1 then CInt (6 * (r - 2))
                     else if c = 2 then (if r = 3 then CStr ''n/a'' else CFloat 0.132)
                     else CNone),
      max_row = 8\<rparr>"

section \<open>Properties of the concentration converter\<close>

text \<open>
  C5 (as stated, refuted): for every numeric ratio the result is the number given by the
  formula. At the ratio 6.274 the source divides by zero and raises, so no number is
  returned there.
\<close>

theorem C5_ratio_formula_counterexample:
  "ratio_to_calcium_concentration (CFloat 6.274) = Inl ZeroDivisionError
   \<and> ratio_to_calcium_concentration (CFloat 6.274)
        \<noteq> Inr (Some (146 * (25813.79 / 1674.68) * ((6.274 - 0.132) / (6.274 - 6.274))))"
  by (simp add: ratio_to_calcium_concentration_def)

text \<open>
  C5 (amended): for every numeric ratio \<open>r\<close> other than 6.274 the result is
  \<open>146 * (25813.79/1674.68) * ((r - 0.132) / (6.274 - r))\<close>; the ratio 0.132 gives 0;
  an absent ratio (\<open>None\<close>) gives an absent result (\<open>None\<close>), not a number.
\<close>

theorem C5_ratio_formula:
  "(cell_number c = Some r \<and> r \<noteq> 6.274 \<longrightarrow>
      ratio_to_calcium_concentration c
        = Inr (Some (146 * (25813.79 / 1674.68) * ((r - 0.132) / (6.274 - r)))))
   \<and> ratio_to_calcium_concentration (CFloat 0.132) = Inr (Some 0)
   \<and> ratio_to_calcium_concentration CNone = Inr None"
  by (cases c) (auto simp: ratio_to_calcium_concentration_def)

theorem C5_ratio_formula_witness:
  "cell_number (CInt 1) = Some 1 \<and> (1::real) \<noteq> 6.274
   \<and> ratio_to_calcium_concentration (CInt 1)
        = Inr (Some (146 * (25813.79 / 1674.68) * ((1 - 0.132) / (6.274 - 1))))"
  using C5_ratio_formula [of "CInt 1" 1] by simp

section \<open>The loop of the area computation\<close>

lemma below_count_0: "below_count b s p 0 vs = 0"
  by (simp add: below_count_def)

lemma below_count_Suc_Cons:
  "below_count b s p (Suc i) (v # vs) =
     (if below_threshold b s p v then 1 else 0) + below_count b s p i vs"
  by (simp add: below_count_def)

lemma dt_from_Suc_Cons: "dt_from prev (v # vs) (Suc i) = dt_from (Some (time v)) vs i"
  by (cases i) (simp_all add: dt_from_def)

lemma area_term_Suc_Cons:
  "area_term b s p prev c (v # vs) (Suc i) =
     area_term b s p (Some (time v)) (c + (if below_threshold b s p v then 1 else 0)) vs i"
  by (simp add: area_term_def below_count_Suc_Cons dt_from_Suc_Cons)

lemma upt_Suc_shift: "[0..<Suc n] = 0 # map Suc [0..<n]"
  by (simp add: upt_conv_Cons map_Suc_upt del: upt_Suc)

lemma sum_terms_Cons:
  "sum_list (map (area_term b s p prev c (v # vs)) [0..<length (v # vs)]) =
     area_term b s p prev c (v # vs) 0
     + sum_list (map (area_term b s p (Some (time v))
                        (c + (if below_threshold b s p v then 1 else 0)) vs) [0..<length vs])"
proof -
  have "map (area_term b s p prev c (v # vs)) [0..<length (v # vs)] =
        area_term b s p prev c (v # vs) 0
        # map (area_term b s p (Some (time v))
                        (c + (if below_threshold b s p v then 1 else 0)) vs) [0..<length vs]"
    using upt_Suc_shift [of "length vs"]
    by (simp add: area_term_Suc_Cons comp_def del: upt_Suc)
  then show ?thesis by simp
qed

lemma area_term_done:
  "15 \<le> c \<Longrightarrow> sum_list (map (area_term b s p prev c vs) is) = 0"
  by (induction "is") (simp_all add: area_term_def)

text \<open>
  The loop, started anywhere before the counter has reached 15, adds to the accumulator
  the terms of the remaining samples.
\<close>

lemma area_loop_sum:
  "c < 15 \<Longrightarrow>
   area_loop b s p prev c auc vs =
     auc + sum_list (map (area_term b s p prev c vs) [0..<length vs])"
proof (induction vs arbitrary: prev c auc)
  case Nil
  then show ?case by simp
next
  case (Cons v vs)
  have t0: "area_term b s p prev c (v # vs) 0 =
     (if val v > b + s then (val v - b) * (case prev of None \<Rightarrow> 6 | Some q \<Rightarrow> time v - q) else 0)"
    using Cons.prems
    by (simp add: area_term_def below_count_0 dt_from_def split: option.split)
  show ?case
  proof (cases "val v > b + s")
    case True
    then have nb: "\<not> below_threshold b s p v" by (simp add: below_threshold_def)
    show ?thesis
      using True nb Cons.prems Cons.IH [of c "Some (time v)"]
      by (simp only: sum_terms_Cons t0) (simp add: Let_def)
  next
    case False
    show ?thesis
    proof (cases "time v > p")
      case tp: True
      then have bl: "below_threshold b s p v" using False by (simp add: below_threshold_def)
      show ?thesis
      proof (cases "c + 1 \<ge> 15")
        case True
        then show ?thesis
          using False tp bl area_term_done [of "c + 1" b s p "Some (time v)" vs "[0..<length vs]"]
          by (simp only: sum_terms_Cons t0) (simp add: Let_def)
      next
        case c15: False
        then show ?thesis
          using False tp bl Cons.IH [of "c + 1" "Some (time v)" auc]
          by (simp only: sum_terms_Cons t0) (simp add: Let_def)
      qed
    next
      case tp: False
      then have nb: "\<not> below_threshold b s p v" by (simp add: below_threshold_def)
      show ?thesis
        using False tp nb Cons.prems Cons.IH [of c "Some (time v)" auc]
        by (simp only: sum_terms_Cons t0) (simp add: Let_def)
    qed
  qed
qed

text \<open>
  C1: \<open>calculate_area\<close> runs over the samples of \<open>treatment_data\<close> followed by those of
  \<open>anterior_wash_data\<close>; the time step is 6 for the first sample and the distance to
  the previous sample's time afterwards; a sample whose value exceeds
  \<open>base + base_std\<close> adds \<open>(value - base) * dt\<close>; any other sample past the peak time
  advances a counter that no later sample resets, and nothing is added once the counter
  has reached 15.
\<close>

theorem C1_calculate_area_spec:
  "calculate_area td base base_std base_peak_time =
     area_spec base base_std base_peak_time (treatment_data td @ anterior_wash_data td)"
  using area_loop_sum [of 0 base base_std base_peak_time None 0
                          "treatment_data td @ anterior_wash_data td"]
  by (simp add: calculate_area_def area_spec_def)

section \<open>Sign of the area\<close>

lemma area_term_nonneg:
  assumes v: "considered_values_at_least_base b s p vs"
    and t: "considered_times_nondecreasing b s p vs"
    and i: "i < length vs"
  shows "0 \<le> area_term b s p None 0 vs i"
proof (cases "val (vs ! i) > b + s \<and> below_count b s p i vs < 15")
  case False
  then show ?thesis by (auto simp add: area_term_def)
next
  case True
  then have c: "considered b s p vs i" using i by (simp add: considered_def)
  have "b \<le> val (vs ! i)"
    using v c i by (simp add: considered_values_at_least_base_def list_all_iff)
  moreover have "0 \<le> dt_from None vs i"
  proof (cases i)
    case 0
    then show ?thesis by (simp add: dt_from_def)
  next
    case (Suc j)
    then have "j < length vs" using i by simp
    then have "time (vs ! j) \<le> time (vs ! Suc j)"
      using t c Suc by (simp add: considered_times_nondecreasing_def list_all_iff)
    then show ?thesis using Suc by (simp add: dt_from_def)
  qed
  ultimately show ?thesis using True by (simp add: area_term_def)
qed

text \<open>
  C10 (as stated, refuted): whenever every considered sample value is at least the base,
  the area is at least 0. Two samples of value 5 at the times 10 and 0, with base 0: the
  second time step is \<open>0 - 10\<close>, and the area is \<open>5 * 6 + 5 * (- 10) = - 20\<close>.
\<close>

theorem C10_area_nonneg_counterexample:
  "considered_values_at_least_base 0 0 0
      (treatment_data \<lparr>treatment_name = ''CCK'', prior_wash_data = Some [],
         treatment_data = [\<lparr>time = 10, val = 5\<rparr>, \<lparr>time = 0, val = 5\<rparr>],
         anterior_wash_data = []\<rparr>
       @ anterior_wash_data \<lparr>treatment_name = ''CCK'', prior_wash_data = Some [],
         treatment_data = [\<lparr>time = 10, val = 5\<rparr>, \<lparr>time = 0, val = 5\<rparr>],
         anterior_wash_data = []\<rparr>)
   \<and> calculate_area \<lparr>treatment_name = ''CCK'', prior_wash_data = Some [],
         treatment_data = [\<lparr>time = 10, val = 5\<rparr>, \<lparr>time = 0, val = 5\<rparr>],
         anterior_wash_data = []\<rparr> 0 0 0 = - 20"
  by (simp add: considered_values_at_least_base_def considered_def calculate_area_def)

text \<open>
  C10 (amended): for every TreatmentData in which every sample considered by the area
  computation has a value of at least the base, and in which no considered sample is
  earlier in time than the sample before it, the area returned by \<open>calculate_area\<close> is
  at least 0.
\<close>

theorem C10_area_nonneg:
  assumes "considered_values_at_least_base base base_std base_peak_time
             (treatment_data td @ anterior_wash_data td)"
    and "considered_times_nondecreasing base base_std base_peak_time
             (treatment_data td @ anterior_wash_data td)"
  shows "0 \<le> calculate_area td base base_std base_peak_time"
proof -
  let ?vs = "treatment_data td @ anterior_wash_data td"
  have "calculate_area td base base_std base_peak_time =
          sum_list (map (area_term base base_std base_peak_time None 0 ?vs) [0..<length ?vs])"
    using area_loop_sum [of 0 base base_std base_peak_time None 0 ?vs]
    by (simp add: calculate_area_def)
  moreover have "0 \<le> sum_list (map (area_term base base_std base_peak_time None 0 ?vs)
                                  [0..<length ?vs])"
    by (rule sum_list_nonneg) (use assms area_term_nonneg in auto)
  ultimately show ?thesis by simp
qed

theorem C10_area_nonneg_witness:
  "considered_values_at_least_base 1 0 0 [\<lparr>time = 0, val = 5\<rparr>, \<lparr>time = 10, val = 3\<rparr>]
   \<and> considered_times_nondecreasing 1 0 0 [\<lparr>time = 0, val = 5\<rparr>, \<lparr>time = 10, val = 3\<rparr>]
   \<and> 0 \<le> calculate_area \<lparr>treatment_name = ''CCK'', prior_wash_data = Some [],
              treatment_data = [\<lparr>time = 0, val = 5\<rparr>],
              anterior_wash_data = [\<lparr>time = 10, val = 3\<rparr>]\<rparr> 1 0 0"
proof -
  have a: "considered_values_at_least_base 1 0 0
             [\<lparr>time = 0, val = 5\<rparr>, \<lparr>time = 10, val = 3\<rparr>]"
    by (simp add: considered_values_at_least_base_def upt_Suc_shift del: upt_Suc)
  have b: "considered_times_nondecreasing 1 0 0
             [\<lparr>time = 0, val = 5\<rparr>, \<lparr>time = 10, val = 3\<rparr>]"
    by (simp add: considered_times_nondecreasing_def considered_def upt_Suc_shift
          del: upt_Suc)
  show ?thesis
    using a b C10_area_nonneg [of 1 0 0 "\<lparr>treatment_name = ''CCK'', prior_wash_data = Some [],
         treatment_data = [\<lparr>time = 0, val = 5\<rparr>],
         anterior_wash_data = [\<lparr>time = 10, val = 3\<rparr>]\<rparr>"]
    by simp
qed

section \<open>The base\<close>

lemma py_slice_from_last:
  "1 \<le> b \<Longrightarrow> py_slice_from (- b) xs = drop (length xs - nat b) xs"
  by (auto simp add: py_slice_from_def Let_def max_def nat_diff_distrib'
        intro: arg_cong2 [where f = drop])

lemma calculate_base_Some:
  "prior_wash_data td = Some pw \<Longrightarrow>
   calculate_base td base =
     (let xs = map val (py_slice_from (- base) pw)
      in if length xs < 2 then Inl StatisticsError else Inr (mean_of xs, sample_stdev_of xs))"
  by (auto simp add: calculate_base_def py_mean_def py_stdev_def mean_of_def
        sample_stdev_of_def Let_def)

lemma calculate_base_last:
  assumes "1 \<le> base" and "prior_wash_data td = Some pw"
  shows "\<exists>taken. suffix taken pw
           \<and> length taken = min (nat base) (length pw)
           \<and> (nat base < length pw \<longrightarrow> taken \<noteq> pw)
           \<and> calculate_base td base =
               (if length taken < 2 then Inl StatisticsError
                else Inr (mean_of (map val taken), sample_stdev_of (map val taken)))"
proof (intro exI conjI)
  let ?taken = "drop (length pw - nat base) pw"
  show "suffix ?taken pw" by (rule suffix_drop)
  show "length ?taken = min (nat base) (length pw)" by auto
  show "nat base < length pw \<longrightarrow> ?taken \<noteq> pw"
  proof
    assume "nat base < length pw"
    then have "length ?taken < length pw" using assms(1) by auto
    then show "?taken \<noteq> pw" by (metis less_irrefl)
  qed
  show "calculate_base td base =
               (if length ?taken < 2 then Inl StatisticsError
                else Inr (mean_of (map val ?taken), sample_stdev_of (map val ?taken)))"
    using assms by (simp add: calculate_base_Some py_slice_from_last Let_def)
qed

text \<open>
  For a requested count of at least 1, \<open>calculate_base\<close> returns the mean and the
  sample standard deviation of exactly the last \<open>base_elements\<close> samples of
  \<open>prior_wash_data\<close> (of all of them when there are fewer), never of the whole series
  when it holds more than \<open>base_elements\<close> samples, and raises when fewer than 2
  samples are taken (or when there is no prior wash list at all).
\<close>

theorem calculate_base_positive_count:
  assumes "1 \<le> base"
  shows "case prior_wash_data td of
           None \<Rightarrow> calculate_base td base = Inl TypeError
         | Some pw \<Rightarrow>
             (\<exists>taken. suffix taken pw
                \<and> length taken = min (nat base) (length pw)
                \<and> (nat base < length pw \<longrightarrow> taken \<noteq> pw)
                \<and> calculate_base td base =
                    (if length taken < 2 then Inl StatisticsError
                     else Inr (mean_of (map val taken), sample_stdev_of (map val taken))))"
proof (cases "prior_wash_data td")
  case None
  then show ?thesis by (simp add: calculate_base_def)
next
  case (Some pw)
  then show ?thesis using calculate_base_last [OF assms Some] by simp
qed

theorem calculate_base_positive_count_example:
  "(1::int) \<le> 2
   \<and> calculate_base \<lparr>treatment_name = ''CCK'',
       prior_wash_data = Some [\<lparr>time = 0, val = 1\<rparr>, \<lparr>time = 6, val = 2\<rparr>,
                               \<lparr>time = 12, val = 4\<rparr>],
       treatment_data = [], anterior_wash_data = []\<rparr> 2
     = Inr (mean_of [2, 4], sample_stdev_of [2, 4])"
proof -
  let ?pw = "[\<lparr>time = 0, val = 1\<rparr>, \<lparr>time = 6, val = 2\<rparr>, \<lparr>time = 12, val = 4\<rparr>]"
  let ?td = "\<lparr>treatment_name = ''CCK'', prior_wash_data = Some ?pw,
              treatment_data = [], anterior_wash_data = []\<rparr>"
  have one: "(1::int) \<le> 2" by simp
  from calculate_base_positive_count [OF one, of ?td]
  obtain taken where suf: "suffix taken ?pw" and len: "length taken = 2"
    and res: "calculate_base ?td 2 =
                (if length taken < 2 then Inl StatisticsError
                 else Inr (mean_of (map val taken), sample_stdev_of (map val taken)))"
    by auto
  from suf obtain pre where pre: "?pw = pre @ taken" by (auto simp add: suffix_def)
  then have "length ?pw = length pre + length taken" by (metis length_append)
  then have "length pre = 1" using len by simp
  then have "taken = [\<lparr>time = 6, val = 2\<rparr>, \<lparr>time = 12, val = 4\<rparr>]"
    using pre by (cases pre) auto
  then show ?thesis using res one by simp
qed

text \<open>
  C4: for every requested count \<open>base_elements\<close>, \<open>calculate_base\<close> returns the mean
  and the sample standard deviation of exactly the last \<open>base_elements\<close> samples of
  \<open>prior_wash_data\<close> (of all of them when there are fewer), never of the whole series
  when it holds more samples, and is fatal when fewer than 2 samples are taken. On the
  source the count 0 makes the slice \<open>prior_wash_data[-0:]\<close>, which is the whole list:
  three prior samples of values 1, 2, 3 give the mean 2 and the standard deviation 1 of
  the whole series, where no sample should be taken; the count 1 on the same samples
  takes one sample and raises StatisticsError.
\<close>

theorem C4_base_zero_whole_series:
  "calculate_base \<lparr>treatment_name = ''CCK'',
       prior_wash_data = Some [\<lparr>time = 0, val = 1\<rparr>, \<lparr>time = 6, val = 2\<rparr>,
                               \<lparr>time = 12, val = 3\<rparr>],
       treatment_data = [], anterior_wash_data = []\<rparr> 0 = Inr (2, 1)
   \<and> mean_of [1, 2, 3] = 2 \<and> sample_stdev_of [1, 2, 3] = 1
   \<and> calculate_base \<lparr>treatment_name = ''CCK'',
       prior_wash_data = Some [\<lparr>time = 0, val = 1\<rparr>, \<lparr>time = 6, val = 2\<rparr>,
                               \<lparr>time = 12, val = 3\<rparr>],
       treatment_data = [], anterior_wash_data = []\<rparr> 1 = Inl StatisticsError"
  by (simp add: calculate_base_def py_slice_from_def py_mean_def py_stdev_def
        mean_of_def sample_stdev_of_def power2_eq_square)

section \<open>The walk over the labels of a region\<close>

lemma treatments_have_prior_bath_Nil: "treatments_have_prior_bath []"
  by (simp add: treatments_have_prior_bath_def)

lemma treatments_have_prior_bath_snoc:
  "treatments_have_prior_bath (segs @ [seg]) \<longleftrightarrow>
     treatments_have_prior_bath segs \<and> treatment_has_prior_bath segs seg"
  by (auto simp add: treatments_have_prior_bath_def list_all_iff nth_append)

lemma prior_std_not_None:
  "acc \<noteq> None \<or> list_ex is_standard_bath segs \<Longrightarrow> prior_std acc segs \<noteq> None"
proof (induction segs arbitrary: acc)
  case Nil
  then show ?case by simp
next
  case (Cons seg segs)
  then show ?case by (cases seg) auto
qed

lemma first_bath_ex:
  "segs \<noteq> [] \<Longrightarrow> is_standard_bath (hd segs) \<Longrightarrow> list_ex is_standard_bath segs"
  by (cases segs) simp_all

text \<open>What one successful step of the walk appends.\<close>

lemma build_segment_step:
  assumes "build_segment sh region tc labels j st = Inr st'"
  shows "\<exists>seg. fst st' = fst st @ [seg]
           \<and> (case seg of
                 StandardBath d \<Rightarrow> True
               | Treatment t \<Rightarrow> 0 < j \<and> prior_wash_data t = prior_std None (fst st))"
  using assms
  by (auto simp add: build_segment_def Let_def
        split: sum.splits if_splits prod.splits)

lemma build_segment_inv:
  assumes step: "build_segment sh region tc labels j st = Inr st'"
    and inv: "walk_inv j (fst st)"
  shows "walk_inv (Suc j) (fst st')"
proof -
  obtain seg where st': "fst st' = fst st @ [seg]"
    and seg: "case seg of StandardBath d \<Rightarrow> True
              | Treatment t \<Rightarrow> 0 < j \<and> prior_wash_data t = prior_std None (fst st)"
    using build_segment_step [OF step] by blast
  have len: "length (fst st) = j" and hd: "fst st \<noteq> [] \<longrightarrow> is_standard_bath (hd (fst st))"
    and good: "treatments_have_prior_bath (fst st)"
    using inv by (simp_all add: walk_inv_def)
  have new: "treatment_has_prior_bath (fst st) seg \<and> (fst st = [] \<longrightarrow> is_standard_bath seg)"
  proof (cases seg)
    case (StandardBath d)
    then show ?thesis by (simp add: treatment_has_prior_bath_def)
  next
    case (Treatment t)
    then have j: "0 < j" and pw: "prior_wash_data t = prior_std None (fst st)"
      using seg by simp_all
    then have ne: "fst st \<noteq> []" using len by auto
    then have ex: "list_ex is_standard_bath (fst st)" using hd first_bath_ex by blast
    then have "prior_std None (fst st) \<noteq> None" using prior_std_not_None by blast
    then show ?thesis using Treatment pw ex ne by (simp add: treatment_has_prior_bath_def)
  qed
  have "length (fst st') = Suc j" using st' len by simp
  moreover have "is_standard_bath (hd (fst st'))"
    using st' hd new by (cases "fst st") simp_all
  moreover have "treatments_have_prior_bath (fst st')"
    using st' good new by (simp add: treatments_have_prior_bath_snoc)
  ultimately show ?thesis by (simp add: walk_inv_def)
qed

lemma walk_inv_for_each:
  "for_each (build_segment sh region tc labels) [j..<n] st = Inr st' \<Longrightarrow>
   walk_inv j (fst st) \<Longrightarrow> treatments_have_prior_bath (fst st')"
proof (induction "n - j" arbitrary: j st)
  case 0
  then show ?case by (simp add: walk_inv_def)
next
  case (Suc m)
  then have lt: "j < n" by simp
  then have upt: "[j..<n] = j # [Suc j..<n]" by (simp add: upt_conv_Cons)
  from Suc.prems(1) obtain st1 where
    s1: "build_segment sh region tc labels j st = Inr st1"
    and rest: "for_each (build_segment sh region tc labels) [Suc j..<n] st1 = Inr st'"
    by (auto simp add: upt split: sum.splits)
  have "walk_inv (Suc j) (fst st1)" using build_segment_inv [OF s1 Suc.prems(2)] .
  moreover have "m = n - Suc j" using Suc.hyps(2) by simp
  ultimately show ?case using Suc.hyps(1) rest by blast
qed

lemma region_segments_good:
  "region_segments sh start tc region labels = Inr ((segs, out), labels') \<Longrightarrow>
   treatments_have_prior_bath segs"
  using walk_inv_for_each [of sh region tc _ 0 _ "([], [])" "(segs, out)"]
  by (auto simp add: region_segments_def walk_inv_def treatments_have_prior_bath_Nil
        split: sum.splits)

lemma upt_Suc_first: "[0..<Suc n] = 0 # [Suc 0..<Suc n]"
  by (simp add: upt_conv_Cons del: upt_Suc)

lemma tuple_first_fails:
  "for_each (build_segment sh region tc (PlainTuple l i # rest))
     [0..<length (PlainTuple l i # rest)] st = Inl AttributeError"
  by (simp add: upt_Suc_first build_segment_def Let_def del: upt_Suc)

lemma treatment_first_fails:
  assumes "is_valid_treatment l"
  shows "\<exists>e. for_each (build_segment sh region tc (LabelIndexPair l i # rest))
     [0..<length (LabelIndexPair l i # rest)] st = Inl e"
  using assms
  by (simp add: upt_Suc_first build_segment_def Let_def split: sum.splits prod.splits
        del: upt_Suc)

lemma region_first_label_late:
  "start < i \<Longrightarrow>
   region_segments sh start tc region (LabelIndexPair l i # rest) = Inl AttributeError"
  using tuple_first_fails [of sh region tc "''STD''" start "LabelIndexPair l i # rest" "([], [])"]
  by (simp add: region_segments_def insert_std_label_def del: upt_Suc)

lemma region_treatment_first:
  "is_valid_treatment l \<Longrightarrow>
   \<exists>e. region_segments sh start tc region (LabelIndexPair l i # rest) = Inl e"
  using tuple_first_fails [of sh region tc "''STD''" start "LabelIndexPair l i # rest" "([], [])"]
    treatment_first_fails [of l sh region tc i rest "([], [])"]
  by (auto simp add: region_segments_def insert_std_label_def simp del: upt_Suc)

text \<open>
  C8: in every region, a treatment label with no StandardBathData segment earlier in the
  region's segment list is fatal: whenever the walk over the labels succeeds, every
  TreatmentData of the segment list comes after a StandardBathData and its
  \<open>prior_wash_data\<close> is the samples of the last one before it; in particular, a
  treatment that is first in the label list always ends in an exception, never in a
  TreatmentData without a base.
\<close>

theorem C8_treatment_needs_prior_bath:
  "(region_segments insheet start_of_data_row time_column_idx region treatment_labels
      = Inr ((segs, out), labels') \<longrightarrow> treatments_have_prior_bath segs)
   \<and> (is_valid_treatment l \<longrightarrow>
        (\<exists>e. region_segments insheet start_of_data_row time_column_idx region
                (LabelIndexPair l i # rest) = Inl e))"
  using region_segments_good region_treatment_first by blast

theorem C8_treatment_needs_prior_bath_witness:
  "region_segments example_sheet 2 1 2
       [LabelIndexPair ''STD'' 2, LabelIndexPair ''CCK'' 4, LabelIndexPair ''STD'' 6]
     = Inr (([StandardBath [\<lparr>time = 0, val = 0\<rparr>, \<lparr>time = 6, val = 0\<rparr>],
              Treatment \<lparr>treatment_name = ''CCK'',
                 prior_wash_data = Some [\<lparr>time = 0, val = 0\<rparr>, \<lparr>time = 6, val = 0\<rparr>],
                 treatment_data = [\<lparr>time = 12, val = 0\<rparr>, \<lparr>time = 18, val = 0\<rparr>],
                 anterior_wash_data = [\<lparr>time = 30, val = 0\<rparr>, \<lparr>time = 36, val = 0\<rparr>]\<rparr>,
              StandardBath [\<lparr>time = 24, val = 0\<rparr>, \<lparr>time = 30, val = 0\<rparr>,
                            \<lparr>time = 36, val = 0\<rparr>]], []),
            [LabelIndexPair ''STD'' 2, LabelIndexPair ''CCK'' 4, LabelIndexPair ''STD'' 6])
   \<and> treatments_have_prior_bath
        [StandardBath [\<lparr>time = 0, val = 0\<rparr>, \<lparr>time = 6, val = 0\<rparr>],
         Treatment \<lparr>treatment_name = ''CCK'',
            prior_wash_data = Some [\<lparr>time = 0, val = 0\<rparr>, \<lparr>time = 6, val = 0\<rparr>],
            treatment_data = [\<lparr>time = 12, val = 0\<rparr>, \<lparr>time = 18, val = 0\<rparr>],
            anterior_wash_data = [\<lparr>time = 30, val = 0\<rparr>, \<lparr>time = 36, val = 0\<rparr>]\<rparr>,
         StandardBath [\<lparr>time = 24, val = 0\<rparr>, \<lparr>time = 30, val = 0\<rparr>,
                       \<lparr>time = 36, val = 0\<rparr>]]
   \<and> is_valid_treatment ''CCK''
   \<and> region_segments example_sheet 2 1 2
         [LabelIndexPair ''CCK'' 2, LabelIndexPair ''STD'' 6] = Inl AssertionError"
proof -
  let ?labels = "[LabelIndexPair ''STD'' 2, LabelIndexPair ''CCK'' 4, LabelIndexPair ''STD'' 6]"
  let ?segs = "[StandardBath [\<lparr>time = 0, val = 0\<rparr>, \<lparr>time = 6, val = 0\<rparr>],
         Treatment \<lparr>treatment_name = ''CCK'',
            prior_wash_data = Some [\<lparr>time = 0, val = 0\<rparr>, \<lparr>time = 6, val = 0\<rparr>],
            treatment_data = [\<lparr>time = 12, val = 0\<rparr>, \<lparr>time = 18, val = 0\<rparr>],
            anterior_wash_data = [\<lparr>time = 30, val = 0\<rparr>, \<lparr>time = 36, val = 0\<rparr>]\<rparr>,
         StandardBath [\<lparr>time = 24, val = 0\<rparr>, \<lparr>time = 30, val = 0\<rparr>,
                       \<lparr>time = 36, val = 0\<rparr>]]"
  have run: "region_segments example_sheet 2 1 2 ?labels = Inr ((?segs, []), ?labels)"
    by code_simp
  have valid: "is_valid_treatment ''CCK''"
    by (simp add: is_valid_treatment_def)
  have first: "region_segments example_sheet 2 1 2
         [LabelIndexPair ''CCK'' 2, LabelIndexPair ''STD'' 6] = Inl AssertionError"
    by code_simp
  have "treatments_have_prior_bath ?segs"
    using C8_treatment_needs_prior_bath
            [of example_sheet 2 1 2 ?labels ?segs "[]" ?labels "''CCK''" 2
                "[LabelIndexPair ''STD'' 6]"] run
    by blast
  then show ?thesis using run valid first by blast
qed

text \<open>
  C7: when the first label's row is after the first data row, a leading ('STD',
  first-data-row) pair is synthesized and the region's segment list begins with a
  StandardBathData for the rows before the first label. On the source, what is
  inserted is a plain tuple, not a \<open>LabelIndexPair\<close>, and the walk raises AttributeError
  on its \<open>.label\<close>: with the first label CCK at row 4 and the data starting at row 2, no
  segment list is produced.
\<close>

theorem C7_leading_std_raises:
  "region_segments example_sheet 2 1 2
       [LabelIndexPair ''CCK'' 4, LabelIndexPair ''STD'' 6] = Inl AttributeError"
  using region_first_label_late [of 2 4 example_sheet 1 2 "''CCK''" "[LabelIndexPair ''STD'' 6]"]
  by simp

text \<open>
  C6: for a treatment followed by a bath marker, \<open>anterior_wash_data\<close> holds the samples
  of the rows from the end of the treatment's row range up to the row before the label
  two positions ahead (or the last row). On the source the collection starts one row
  later, at \<open>treatment_end_idx + 1\<close>: with the labels STD at row 2, CCK at row 4 and STD
  at row 6 on a sheet of 8 rows, the bath after CCK holds rows 6, 7, 8 (times 24, 30,
  36) and \<open>anterior_wash_data\<close> only rows 7 and 8.
\<close>

theorem C6_anterior_wash_skips_row:
  "region_segments example_sheet 2 1 2
       [LabelIndexPair ''STD'' 2, LabelIndexPair ''CCK'' 4, LabelIndexPair ''STD'' 6]
     = Inr (([StandardBath [\<lparr>time = 0, val = 0\<rparr>, \<lparr>time = 6, val = 0\<rparr>],
              Treatment \<lparr>treatment_name = ''CCK'',
                 prior_wash_data = Some [\<lparr>time = 0, val = 0\<rparr>, \<lparr>time = 6, val = 0\<rparr>],
                 treatment_data = [\<lparr>time = 12, val = 0\<rparr>, \<lparr>time = 18, val = 0\<rparr>],
                 anterior_wash_data = [\<lparr>time = 30, val = 0\<rparr>, \<lparr>time = 36, val = 0\<rparr>]\<rparr>,
              StandardBath [\<lparr>time = 24, val = 0\<rparr>, \<lparr>time = 30, val = 0\<rparr>,
                            \<lparr>time = 36, val = 0\<rparr>]], []),
            [LabelIndexPair ''STD'' 2, LabelIndexPair ''CCK'' 4, LabelIndexPair ''STD'' 6])"
  by code_simp

section \<open>Sample collection\<close>

text \<open>A text in the ratio cell raises in the conversion, before any check.\<close>

lemma append_row_text_ratio:
  "1 \<le> row \<Longrightarrow> 1 \<le> region \<Longrightarrow> cells insheet row region = CStr s \<Longrightarrow>
   append_row insheet region time_column_idx row st = Inl TypeError"
  by (simp add: append_row_def sheet_cell_def ratio_to_calcium_concentration_def)

text \<open>
  An empty ratio cell, or a time cell that is neither int nor float beside a ratio that
  converts, gives the placeholder and one printed line.
\<close>

lemma append_row_placeholder:
  assumes "1 \<le> row" and "1 \<le> region" and "1 \<le> time_column_idx"
    and "ratio_to_calcium_concentration (cells insheet row region) = Inr ratio_value"
    and "ratio_value = None \<or> \<not> is_int_or_float (cells insheet row time_column_idx)"
  shows "append_row insheet region time_column_idx row (xs, out) =
           Inr (xs @ [\<lparr>time = 0, val = 0\<rparr>],
                out @ [InvalidValues (cells insheet row time_column_idx) ratio_value row])"
  using assms
  by (auto simp add: append_row_def sheet_cell_def split: option.splits)

text \<open>
  C9: a row whose ratio cell or time cell is not numeric, a text in the ratio cell
  included, gives a printed line and a (0, 0) placeholder in its position. On the
  source a text in the ratio cell reaches \<open>ratio - 0.132\<close> in the conversion before the
  types are checked, and the TypeError ends the collection: on the sheet with a text in
  the ratio cell of row 3, collecting the rows 2 to 4 returns no list at all.
\<close>

theorem C9_text_ratio_raises:
  "append_values text_ratio_sheet 2 1 ([], []) 2 5 = Inl TypeError"
  by code_simp

section \<open>The peak\<close>

lemma sorted_by_value_desc_head:
  assumes "sorted_by_value_desc pool = best # rest"
  shows "best \<in> set pool \<and> (\<forall>y \<in> set pool. val y \<le> val best)"
proof -
  have s: "set (best # rest) = set pool"
    using assms by (metis sorted_by_value_desc_def set_sort)
  have "sorted (map (\<lambda>x. - val x) (best # rest))"
    using assms by (metis sorted_by_value_desc_def sorted_sort_key)
  then have "\<forall>y \<in> set rest. val y \<le> val best" by auto
  then show ?thesis using s by auto
qed

text \<open>With the mode 'highest', the peak is a sample of greatest value of the list searched.\<close>

lemma calculate_peak_highest_is_max:
  assumes "data_to_search td w = Inr pool"
  shows "\<exists>best. best \<in> set pool \<and> (\<forall>y \<in> set pool. val y \<le> val best)
           \<and> calculate_peak td 1 w = Inr (val best, PeakTime (time best))"
proof -
  have "pool \<noteq> []" using assms by (auto simp add: data_to_search_def Let_def split: if_splits)
  then have "sorted_by_value_desc pool \<noteq> []"
    by (metis sorted_by_value_desc_def length_sort length_0_conv)
  then obtain best rest where srt: "sorted_by_value_desc pool = best # rest"
    by (cases "sorted_by_value_desc pool") auto
  show ?thesis
    using sorted_by_value_desc_head [OF srt] assms srt
    by (auto simp add: calculate_peak_def)
qed

text \<open>With any other mode and two samples or more, \<open>max\<close> compares two objects and raises.\<close>

lemma peak_two_candidates:
  assumes "2 \<le> length (treatment_data td)" and "peak_type \<noteq> 1"
  shows "calculate_peak td peak_type w = Inl TypeError"
proof -
  define pool where "pool = treatment_data td
      @ take (min (length (anterior_wash_data td))
                (peak_scan (time (last (treatment_data td)) + w) 0 (anterior_wash_data td)))
          (anterior_wash_data td)"
  have ne: "treatment_data td \<noteq> []" using assms(1) by auto
  have pool: "data_to_search td w = Inr pool"
    using ne by (simp add: data_to_search_def Let_def pool_def)
  have len: "2 \<le> length pool" using assms(1) by (simp add: pool_def)
  have "length (sorted_by_value_desc pool) = length pool"
    by (simp add: sorted_by_value_desc_def)
  then have "2 \<le> length (sorted_by_value_desc pool)" using len by simp
  then obtain a b rest where srt: "sorted_by_value_desc pool = a # b # rest"
    by (cases "sorted_by_value_desc pool" rule: max_objects.cases) simp_all
  show ?thesis
    using assms(2) by (simp add: calculate_peak_def pool srt py_mean_def)
qed

text \<open>
  C2: with non-empty \<open>treatment_data\<close>, the candidates of the peak are the samples of
  \<open>treatment_data\<close> and exactly the samples of \<open>anterior_wash_data\<close> whose time does not
  exceed the last treatment time plus the search window, and the mode 'highest' returns
  the candidate of greatest value. On the source the counting loop increments before
  it compares, so the first sample past the window is a candidate too: one treatment
  sample at time 0, one wash sample of value 5 at time 1000 and a window of 300 give
  the peak 5 at time 1000.
\<close>

theorem C2_peak_outside_window:
  "data_to_search \<lparr>treatment_name = ''CCK'', prior_wash_data = Some [],
       treatment_data = [\<lparr>time = 0, val = 1\<rparr>],
       anterior_wash_data = [\<lparr>time = 1000, val = 5\<rparr>]\<rparr> 300
     = Inr [\<lparr>time = 0, val = 1\<rparr>, \<lparr>time = 1000, val = 5\<rparr>]
   \<and> calculate_peak \<lparr>treatment_name = ''CCK'', prior_wash_data = Some [],
       treatment_data = [\<lparr>time = 0, val = 1\<rparr>],
       anterior_wash_data = [\<lparr>time = 1000, val = 5\<rparr>]\<rparr> 1 300 = Inr (5, PeakTime 1000)"
  by (simp add: calculate_peak_def data_to_search_def sorted_by_value_desc_def)

text \<open>
  C3: with the mode 'average-of-three' and non-empty \<open>treatment_data\<close>, the peak value
  is the mean of the two greatest candidate values and the peak time the later of their
  two times. On the source the time is \<open>max\<close> over the two \<open>TimeValuePair\<close> objects, not
  over their times, and comparing them raises TypeError: the treatment samples (0, 1)
  and (6, 3) give no peak, where the claim has the value 2 at time 6.
\<close>

theorem C3_average_mode_raises:
  "calculate_peak \<lparr>treatment_name = ''CCK'', prior_wash_data = Some [],
       treatment_data = [\<lparr>time = 0, val = 1\<rparr>, \<lparr>time = 6, val = 3\<rparr>],
       anterior_wash_data = []\<rparr> 2 300 = Inl TypeError"
  by (simp add: calculate_peak_def data_to_search_def sorted_by_value_desc_def py_mean_def)

end
